theory Spec2Isabelle
  imports Main "HOL-Library.Char_ord" "HOL-Library.List_Lexorder" "HOL-Library.Multiset"
begin

section \<open>Strings\<close>

text \<open>
  The program is a single Python script (MedicationReminderHealthLog.py) over two SQLite
  tables. Its strings are modelled as \<^typ>\<open>string\<close>, read as lists of code points (the
  type \<^typ>\<open>char\<close> covers the code points 0 to 255). Python compares strings
  lexicographically by code point and SQLite compares TEXT bytewise on UTF-8, which is the
  same order; here it is the order of \<open>HOL-Library.List_Lexorder\<close> over
  \<open>HOL-Library.Char_ord\<close>, where a proper prefix is smaller.
\<close>

text \<open>\<open>str.isspace\<close> on the code points below 256.\<close>

definition is_space :: "char \<Rightarrow> bool" where
  "is_space c = (of_char c \<in> set [9, 10, 11, 12, 13, 28, 29, 30, 31, 32, 133, 160 :: nat])"

text \<open>\<open>s.strip()\<close>: whitespace removed at both ends.\<close>

definition strip :: "string \<Rightarrow> string" where
  "strip s = rev (dropWhile is_space (rev (dropWhile is_space s)))"

text \<open>
  \<open>s.split(sep)\<close> for a one-character separator: every occurrence cuts, adjacent
  separators give empty pieces, and the empty string gives one empty piece.
\<close>

fun split_on :: "char \<Rightarrow> string \<Rightarrow> string list" where
  "split_on sep [] = [[]]"
| "split_on sep (x # xs) =
     (if x = sep then [] # split_on sep xs
      else (let r = split_on sep xs in (x # hd r) # tl r))"

text \<open>\<open>sep.join(xs)\<close>.\<close>

fun join_with :: "string \<Rightarrow> string list \<Rightarrow> string" where
  "join_with sep [] = []"
| "join_with sep [x] = x"
| "join_with sep (x # y # ys) = x @ sep @ join_with sep (y # ys)"

text \<open>
  Lines 52-55:
  \<^verbatim>\<open>
  def parse_times(time_str):
      if not time_str:
          return []
      return [t.strip() for t in time_str.split(",")]
  \<close>
\<close>

definition parse_times :: "string \<Rightarrow> string list" where
  "parse_times time_str =
     (if time_str = [] then [] else map strip (split_on (CHR '','') time_str))"

section \<open>The store\<close>

text \<open>
  The two tables of lines 22-44. A table is the list of its rows in rowid order, which is
  the order in which a SELECT without ORDER BY scans them and in which \<open>fetchone\<close> finds
  its first match. A column that every INSERT of the script fills is a plain value; a
  column that some INSERT leaves NULL is an option (\<open>None\<close> is NULL). The column
  \<open>notes\<close> is the field \<open>log_notes\<close>, and the \<open>id\<close> columns are \<open>med_id\<close> and \<open>log_id\<close>.
\<close>

record medication =
  med_id :: nat
  name :: string
  dosage :: string
  frequency :: string
  start_date :: string
  end_date :: "string option"
  times_per_day :: int
  reminder_times :: string

record health_log_entry =
  log_id :: nat
  date :: string
  symptom :: "string option"
  severity :: "int option"
  log_notes :: "string option"
  taken_medications :: "string option"

record store =
  medications :: "medication list"
  health_log :: "health_log_entry list"

text \<open>
  \<open>INTEGER PRIMARY KEY AUTOINCREMENT\<close>: one more than the largest id the table has held.
  The script never deletes a row, so that is the largest id in the table.
\<close>

definition next_id :: "nat list \<Rightarrow> nat" where
  "next_id ids = Suc (fold max ids 0)"

subsection \<open>Statements on \<open>health_log\<close>\<close>

text \<open>
  Lines 101-102 (and 85-86):
  \<^verbatim>\<open>
  c.execute("SELECT taken_medications FROM health_log WHERE date = ?", (today,))
  row = c.fetchone()
  \<close>
  The result is \<open>None\<close> when no row has the date, and otherwise the one-column tuple of
  the first such row, whose column may be NULL.
\<close>

definition fetch_taken :: "store \<Rightarrow> string \<Rightarrow> string option option" where
  "fetch_taken db today =
     map_option taken_medications (find (\<lambda>r. date r = today) (health_log db))"

text \<open>
  Line 103 (and 87): \<^verbatim>\<open>taken_list = row[0].split(";") if row and row[0] else []\<close>.
  A one-column tuple is truthy; NULL and the empty string are falsy.
\<close>

definition taken_names :: "string option option \<Rightarrow> string list" where
  "taken_names row =
     (case row of
        Some (Some s) \<Rightarrow> if s = [] then [] else split_on (CHR '';'') s
      | _ \<Rightarrow> [])"

text \<open>
  The two writes of the mark-as-taken handler, lines 108 and 110:
  \<^verbatim>\<open>
  UPDATE health_log SET taken_medications = ? WHERE date = ?
  INSERT INTO health_log (date, taken_medications) VALUES (?, ?)
  \<close>
  and the write of the health-log form, lines 159-162:
  \<^verbatim>\<open>
  INSERT INTO health_log (date, symptom, severity, notes) VALUES (?, ?, ?, ?)
  \<close>
\<close>

datatype stmt =
    UPDATE_taken string string
  | INSERT_taken string string
  | INSERT_symptom string string int string

fun execute :: "stmt \<Rightarrow> store \<Rightarrow> store" where
  "execute (UPDATE_taken taken_str today) db =
     db\<lparr>health_log :=
          map (\<lambda>r. if date r = today then r\<lparr>taken_medications := Some taken_str\<rparr> else r)
            (health_log db)\<rparr>"
| "execute (INSERT_taken today nm) db =
     db\<lparr>health_log := health_log db @
          [\<lparr>log_id = next_id (map log_id (health_log db)), date = today, symptom = None,
            severity = None, log_notes = None, taken_medications = Some nm\<rparr>]\<rparr>"
| "execute (INSERT_symptom today sm sev nts) db =
     db\<lparr>health_log := health_log db @
          [\<lparr>log_id = next_id (map log_id (health_log db)), date = today, symptom = Some sm,
            severity = Some sev, log_notes = Some nts, taken_medications = None\<rparr>]\<rparr>"

section \<open>Health Log Recorder\<close>

text \<open>
  The handler of the dashboard's button, lines 100-113, for the date \<open>today\<close> and the
  medication name \<open>nm\<close>:
  \<^verbatim>\<open>
  c.execute("SELECT taken_medications FROM health_log WHERE date = ?", (today,))
  row = c.fetchone()
  taken_list = row[0].split(";") if row and row[0] else []
  if name not in taken_list:
      taken_list.append(name)
      taken_str = ";".join(taken_list)
      if row:
          c.execute("UPDATE health_log SET taken_medications = ? WHERE date = ?", (taken_str, today))
      else:
          c.execute("INSERT INTO health_log (date, taken_medications) VALUES (?, ?)", (today, name))
      conn.commit()
  \<close>
  \<open>mark_writes\<close> is the list of statements the handler issues, \<open>markMedicationTaken\<close>
  the store after them.
\<close>

definition mark_writes :: "store \<Rightarrow> string \<Rightarrow> string \<Rightarrow> stmt list" where
  "mark_writes db today nm =
     (let row = fetch_taken db today;
          taken_list = taken_names row
      in if nm \<notin> set taken_list then
           (let taken_str = join_with '';'' (taken_list @ [nm])
            in if row \<noteq> None then [UPDATE_taken taken_str today]
               else [INSERT_taken today nm])
         else [])"

definition markMedicationTaken :: "store \<Rightarrow> string \<Rightarrow> string \<Rightarrow> store" where
  "markMedicationTaken db today nm = fold execute (mark_writes db today nm) db"

text \<open>The health-log form, lines 157-163: always one INSERT.\<close>

definition recordSymptom :: "store \<Rightarrow> string \<Rightarrow> string \<Rightarrow> int \<Rightarrow> string \<Rightarrow> store" where
  "recordSymptom db today sm sev nts = execute (INSERT_symptom today sm sev nts) db"

text \<open>The names the handler reads for a date: the day's taken list.\<close>

definition taken_list_on :: "store \<Rightarrow> string \<Rightarrow> string list" where
  "taken_list_on db today = taken_names (fetch_taken db today)"


section \<open>Persistence Store: the read queries and the medication insert\<close>

text \<open>The SQL operators \<open>x BETWEEN lo AND hi\<close> and \<open>COALESCE(x, y)\<close>.\<close>

definition between :: "string \<Rightarrow> string \<Rightarrow> string \<Rightarrow> bool" where
  "between x lo hi = (lo \<le> x \<and> x \<le> hi)"

definition coalesce :: "'a option \<Rightarrow> 'a \<Rightarrow> 'a" where
  "coalesce x y = (case x of None \<Rightarrow> y | Some v \<Rightarrow> v)"

text \<open>
  Lines 63-64:
  \<^verbatim>\<open>
  c.execute("SELECT * FROM medications WHERE ? BETWEEN start_date AND COALESCE(end_date, ?) ", (today, today))
  meds = c.fetchall()
  \<close>
\<close>

definition listMedicationsActiveOn :: "store \<Rightarrow> string \<Rightarrow> medication list" where
  "listMedicationsActiveOn db today =
     filter (\<lambda>m. between today (start_date m) (coalesce (end_date m) today)) (medications db)"

text \<open>
  The Add-Medication form, lines 119-144. The two date widgets give a date and an optional
  date; the fields here hold \<open>str(start_date)\<close> and \<open>str(end_date) if end_date else None\<close>.
  \<^verbatim>\<open>
  if submitted:
      if not name or not dosage or not reminder_input:
          st.error("Please fill all required fields.")
      else:
          c.execute(INSERT INTO medications (name, dosage, frequency, start_date, end_date,
                    times_per_day, reminder_times) VALUES (?, ?, ?, ?, ?, ?, ?), ...)
          conn.commit()
          st.success(f"Medication '{name}' added successfully!")
  \<close>
  The result is the message shown and the store afterwards.
\<close>

record med_form =
  f_name :: string
  f_dosage :: string
  f_frequency :: string
  f_times_per_day :: int
  f_reminder_input :: string
  f_start_date :: string
  f_end_date :: "string option"

datatype message = St_error string | St_success string

definition addMedication :: "med_form \<Rightarrow> store \<Rightarrow> message \<times> store" where
  "addMedication f db =
     (if f_name f = [] \<or> f_dosage f = [] \<or> f_reminder_input f = [] then
        (St_error ''Please fill all required fields.'', db)
      else
        (St_success (''Medication '' @ [CHR 0x27] @ f_name f @ [CHR 0x27]
                     @ '' added successfully!''),
         db\<lparr>medications := medications db @
              [\<lparr>med_id = next_id (map med_id (medications db)), name = f_name f,
                dosage = f_dosage f, frequency = f_frequency f,
                start_date = f_start_date f, end_date = f_end_date f,
                times_per_day = f_times_per_day f,
                reminder_times = f_reminder_input f\<rparr>]\<rparr>))"

text \<open>
  Line 168:
  \<^verbatim>\<open>
  SELECT date, symptom, severity, notes FROM health_log ORDER BY date DESC LIMIT 10
  \<close>
  SQL leaves the order of rows with equal dates open; the model sorts by insertion and
  keeps such rows in rowid order.
\<close>

fun insort_desc :: "health_log_entry \<Rightarrow> health_log_entry list \<Rightarrow> health_log_entry list" where
  "insort_desc r [] = [r]"
| "insort_desc r (x # xs) = (if date x \<le> date r then r # x # xs else x # insort_desc r xs)"

definition order_by_date_desc :: "health_log_entry list \<Rightarrow> health_log_entry list" where
  "order_by_date_desc rows = foldr insort_desc rows []"

type_synonym log_view = "string \<times> string option \<times> int option \<times> string option"

definition listRecentHealthLogEntries :: "store \<Rightarrow> nat \<Rightarrow> log_view list" where
  "listRecentHealthLogEntries db limit =
     map (\<lambda>r. (date r, symptom r, severity r, log_notes r))
       (take limit (order_by_date_desc (health_log db)))"



section \<open>Schedule Evaluator\<close>

text \<open>
  The loop of lines 80-93 for one medication, with the two lists as accumulators:
  \<^verbatim>\<open>
  pending = []
  taken = []
  for t in reminder_times:
      if t < current_time:
          c.execute("SELECT taken_medications FROM health_log WHERE date = ?", (today,))
          log = c.fetchone()
          med_taken = log[0].split(";") if log and log[0] else []
          if name in med_taken:
              taken.append(t)
          else:
              pending.append(t)
      else:
          pending.append(t)
  \<close>
\<close>

fun classify ::
  "store \<Rightarrow> string \<Rightarrow> string \<Rightarrow> string \<Rightarrow> string list
     \<Rightarrow> string list \<times> string list \<Rightarrow> string list \<times> string list" where
  "classify db today current_time nm [] (pending, taken) = (pending, taken)"
| "classify db today current_time nm (t # ts) (pending, taken) =
     (if t < current_time then
        (let log = fetch_taken db today;
             med_taken = taken_names log
         in if nm \<in> set med_taken
            then classify db today current_time nm ts (pending, taken @ [t])
            else classify db today current_time nm ts (pending @ [t], taken))
      else classify db today current_time nm ts (pending @ [t], taken))"

text \<open>
  Lines 72-73 and 80-93 for a row \<open>med\<close> of the active medications: the pair of the
  pending and the taken times.
\<close>

definition scheduleEvaluator ::
  "store \<Rightarrow> string \<Rightarrow> string \<Rightarrow> medication \<Rightarrow> string list \<times> string list" where
  "scheduleEvaluator db today current_time med =
     classify db today current_time (name med) (parse_times (reminder_times med)) ([], [])"

text \<open>Lines 96 and 98 write a list of times as \<^verbatim>\<open>', '.join(...)\<close>.\<close>

definition join_times :: "string list \<Rightarrow> string" where
  "join_times ts = join_with '', '' ts"

section \<open>Document Exporter\<close>

text \<open>
  Lines 206-209, 222-224 and 234-236 build the two tables that are handed to the PDF
  library; the rendering into bytes is the library's and is not modelled. A table cell is
  a string, an integer or \<open>None\<close>.
  \<^verbatim>\<open>
  med_data = [["Name", "Dosage"]]
  for m in meds:
      med_data.append([m[0], m[1]])
  log_data = [["Date", "Symptom", "Severity", "Notes"]]
  for log in logs:
      log_data.append([log[1], log[2], log[3], log[4] or "-"])
  \<close>
\<close>

datatype cell = Str string | Num int | NoneCell

definition text_cell :: "string option \<Rightarrow> cell" where
  "text_cell x = (case x of None \<Rightarrow> NoneCell | Some s \<Rightarrow> Str s)"

definition int_cell :: "int option \<Rightarrow> cell" where
  "int_cell x = (case x of None \<Rightarrow> NoneCell | Some i \<Rightarrow> Num i)"

text \<open>\<^verbatim>\<open>log[4] or "-"\<close>: NULL and the empty string are falsy.\<close>

definition notes_or_dash :: "string option \<Rightarrow> cell" where
  "notes_or_dash x = (case x of None \<Rightarrow> Str ''-'' | Some s \<Rightarrow> if s = [] then Str ''-'' else Str s)"


definition log_row :: "health_log_entry \<Rightarrow> cell list" where
  "log_row log = [Str (date log), text_cell (symptom log), int_cell (severity log),
                  notes_or_dash (log_notes log)]"



section \<open>Zero-padded times\<close>

text \<open>
  The specification's notion of a zero-padded 24-hour time \<open>HH:MM\<close> and the minute of the
  day it names. The script has neither; they are what its lexicographic comparison is
  measured against.
\<close>

definition is_digit :: "char \<Rightarrow> bool" where
  "is_digit c = (48 \<le> (of_char c :: nat) \<and> (of_char c :: nat) \<le> 57)"

definition digit_value :: "char \<Rightarrow> nat" where
  "digit_value c = of_char c - 48"

fun zero_padded_hhmm :: "string \<Rightarrow> bool" where
  "zero_padded_hhmm [h1, h2, c, m1, m2] =
     (is_digit h1 \<and> is_digit h2 \<and> c = CHR '':'' \<and> is_digit m1 \<and> is_digit m2 \<and>
      10 * digit_value h1 + digit_value h2 < 24 \<and> 10 * digit_value m1 + digit_value m2 < 60)"
| "zero_padded_hhmm _ = False"

fun minute_of_day :: "string \<Rightarrow> nat" where
  "minute_of_day [h1, h2, c, m1, m2] =
     (10 * digit_value h1 + digit_value h2) * 60 + (10 * digit_value m1 + digit_value m2)"
| "minute_of_day _ = 0"

section \<open>Example stores\<close>

definition empty_store :: store where
  "empty_store = \<lparr>medications = [], health_log = []\<rparr>"

definition aspirin_form :: med_form where
  "aspirin_form = \<lparr>f_name = ''Aspirin'', f_dosage = ''100mg'', f_frequency = ''Daily'',
     f_times_per_day = 2, f_reminder_input = ''08:00, 20:00'',
     f_start_date = ''2024-01-01'', f_end_date = None\<rparr>"

definition aspirin_store :: store where
  "aspirin_store = snd (addMedication aspirin_form empty_store)"

text \<open>Two symptom entries on one day, then an entry on the next day.\<close>

definition symptoms_store :: store where
  "symptoms_store =
     recordSymptom
       (recordSymptom (recordSymptom empty_store ''2024-01-05'' ''Headache'' 6 [])
          ''2024-01-05'' ''Fatigue'' 3 ''after lunch'')
       ''2024-01-06'' ''Cough'' 2 []"


text \<open>
  A medication whose reminder time is entered without the leading zero, added through the
  form and then marked as taken on 2024-01-05.
\<close>

definition nine_form :: med_form where
  "nine_form = aspirin_form\<lparr>f_reminder_input := ''9:00''\<rparr>"

definition nine_store :: store where
  "nine_store =
     markMedicationTaken (snd (addMedication nine_form empty_store)) ''2024-01-05'' ''Aspirin''"

text \<open>A form whose name field is left empty.\<close>

definition nameless_form :: med_form where
  "nameless_form = aspirin_form\<lparr>f_name := []\<rparr>"

section \<open>Splitting and joining\<close>

lemma split_on_not_Nil: "split_on c s \<noteq> []"
  by (induction s) (simp_all add: Let_def)

lemma split_on_no_sep: "x \<in> set (split_on c s) \<Longrightarrow> c \<notin> set x"
proof (induction s arbitrary: x)
  case Nil
  then show ?case by simp
next
  case (Cons a s)
  show ?case
  proof (cases "a = c")
    case True
    with Cons show ?thesis by auto
  next
    case False
    obtain y ys where r: "split_on c s = y # ys"
      using split_on_not_Nil [of c s] by (cases "split_on c s") auto
    with False Cons.prems have "x = a # y \<or> x \<in> set ys" by (simp add: Let_def)
    with False r Cons.IH show ?thesis by auto
  qed
qed

lemma split_on_id: "c \<notin> set s \<Longrightarrow> split_on c s = [s]"
  by (induction s) (auto simp add: Let_def)

lemma split_on_append: "split_on c (a @ c # b) = split_on c a @ split_on c b"
proof (induction a)
  case Nil
  show ?case by simp
next
  case (Cons x a)
  obtain y ys where r: "split_on c a = y # ys"
    using split_on_not_Nil [of c a] by (cases "split_on c a") auto
  with Cons show ?case by (simp add: Let_def)
qed

lemma split_on_join:
  "xs \<noteq> [] \<Longrightarrow> split_on c (join_with [c] xs) = concat (map (split_on c) xs)"
proof (induction "[c]" xs rule: join_with.induct)
  case 1
  then show ?case by simp
next
  case (2 x)
  show ?case by simp
next
  case (3 x y ys)
  then show ?case by (simp add: split_on_append)
qed

lemma split_on_pieces:
  "(\<forall>y\<in>set ys. c \<notin> set y) \<Longrightarrow> concat (map (split_on c) ys) = ys"
  by (induction ys) (simp_all add: split_on_id)

lemma join_with_Nil_iff: "join_with [c] xs = [] \<longleftrightarrow> xs = [] \<or> xs = [[]]"
  by (induction "[c]" xs rule: join_with.induct) auto

lemma find_append:
  "find P (xs @ ys) = (case find P xs of None \<Rightarrow> find P ys | Some x \<Rightarrow> Some x)"
  by (induction xs) auto

lemma find_map_preserving:
  "(\<And>x. P (f x) = P x) \<Longrightarrow> find P (map f xs) = map_option f (find P xs)"
  by (induction xs) auto


lemma parse_times_example: "parse_times ''08:00, 20:00'' = [''08:00'', ''20:00'']"
  by (simp add: parse_times_def strip_def is_space_def)

section \<open>The example stores, evaluated\<close>

lemma aspirin_store_eq:
  "aspirin_store =
     \<lparr>medications = [\<lparr>med_id = 1, name = ''Aspirin'', dosage = ''100mg'',
        frequency = ''Daily'', start_date = ''2024-01-01'', end_date = None,
        times_per_day = 2, reminder_times = ''08:00, 20:00''\<rparr>],
      health_log = []\<rparr>"
  by (simp add: aspirin_store_def addMedication_def aspirin_form_def empty_store_def next_id_def)

lemma symptoms_store_eq:
  "symptoms_store =
     \<lparr>medications = [],
      health_log =
        [\<lparr>log_id = 1, date = ''2024-01-05'', symptom = Some ''Headache'', severity = Some 6,
          log_notes = Some [], taken_medications = None\<rparr>,
         \<lparr>log_id = 2, date = ''2024-01-05'', symptom = Some ''Fatigue'', severity = Some 3,
          log_notes = Some ''after lunch'', taken_medications = None\<rparr>,
         \<lparr>log_id = 3, date = ''2024-01-06'', symptom = Some ''Cough'', severity = Some 2,
          log_notes = Some [], taken_medications = None\<rparr>]\<rparr>"
  by (simp add: symptoms_store_def recordSymptom_def empty_store_def next_id_def)

lemma nine_store_eq:
  "nine_store =
     \<lparr>medications = [\<lparr>med_id = 1, name = ''Aspirin'', dosage = ''100mg'',
        frequency = ''Daily'', start_date = ''2024-01-01'', end_date = None,
        times_per_day = 2, reminder_times = ''9:00''\<rparr>],
      health_log =
        [\<lparr>log_id = 1, date = ''2024-01-05'', symptom = None, severity = None,
          log_notes = None, taken_medications = Some ''Aspirin''\<rparr>]\<rparr>"
  by (simp add: nine_store_def nine_form_def addMedication_def aspirin_form_def empty_store_def
      next_id_def markMedicationTaken_def mark_writes_def fetch_taken_def taken_names_def)

section \<open>Health Log Recorder: marking a medication as taken\<close>

lemma taken_names_no_sep: "x \<in> set (taken_names row) \<Longrightarrow> CHR '';'' \<notin> set x"
  by (auto simp: taken_names_def split_on_no_sep split: option.splits if_splits)

lemma taken_list_on_no_sep: "x \<in> set (taken_list_on db d) \<Longrightarrow> CHR '';'' \<notin> set x"
  unfolding taken_list_on_def by (rule taken_names_no_sep)

lemma mark_present: "nm \<in> set (taken_list_on db d) \<Longrightarrow> mark_writes db d nm = []"
  by (simp add: mark_writes_def taken_list_on_def Let_def)

lemma mark_noop: "nm \<in> set (taken_list_on db d) \<Longrightarrow> markMedicationTaken db d nm = db"
  by (simp add: markMedicationTaken_def mark_present)

lemma mark_insert:
  "nm \<notin> set (taken_list_on db d) \<Longrightarrow> fetch_taken db d = None \<Longrightarrow>
   markMedicationTaken db d nm = execute (INSERT_taken d nm) db"
  by (simp add: markMedicationTaken_def mark_writes_def taken_list_on_def Let_def
      del: execute.simps)

lemma mark_update:
  "nm \<notin> set (taken_list_on db d) \<Longrightarrow> fetch_taken db d \<noteq> None \<Longrightarrow>
   markMedicationTaken db d nm
   = execute (UPDATE_taken (join_with '';'' (taken_list_on db d @ [nm])) d) db"
  by (simp add: markMedicationTaken_def mark_writes_def taken_list_on_def Let_def
      del: execute.simps)

text \<open>What the next read finds after each of the two writes.\<close>

lemma fetch_taken_update:
  "fetch_taken (execute (UPDATE_taken s d) db) d = map_option (\<lambda>_. Some s) (fetch_taken db d)"
proof -
  let ?f = "\<lambda>r. if date r = d then r\<lparr>taken_medications := Some s\<rparr> else r"
  have "find (\<lambda>r. date r = d) (map ?f (health_log db))
        = map_option ?f (find (\<lambda>r. date r = d) (health_log db))"
    by (rule find_map_preserving) simp
  moreover have "\<And>r. find (\<lambda>r. date r = d) (health_log db) = Some r \<Longrightarrow> date r = d"
    by (auto simp: find_Some_iff)
  ultimately show ?thesis
    by (cases "find (\<lambda>r. date r = d) (health_log db)") (auto simp: fetch_taken_def)
qed

lemma fetch_taken_insert:
  "fetch_taken db d = None \<Longrightarrow> fetch_taken (execute (INSERT_taken d nm) db) d = Some (Some nm)"
  by (simp add: fetch_taken_def find_append)

lemma taken_list_on_mark:
  "taken_list_on (markMedicationTaken db d nm) d =
     (if nm \<in> set (taken_list_on db d) then taken_list_on db d
      else taken_names (Some (Some (join_with '';'' (taken_list_on db d @ [nm])))))"
proof (cases "nm \<in> set (taken_list_on db d)")
  case True
  then show ?thesis by (simp add: mark_noop)
next
  case False
  show ?thesis
  proof (cases "fetch_taken db d")
    case None
    then have "taken_list_on db d = []" by (simp add: taken_list_on_def taken_names_def)
    with None False show ?thesis
      by (simp add: mark_insert fetch_taken_insert taken_list_on_def del: execute.simps)
  next
    case (Some a)
    with False show ?thesis
      by (simp add: mark_update fetch_taken_update taken_list_on_def del: execute.simps)
  qed
qed

text \<open>
  Writing a list with one more name and reading it back, twice: the second round adds
  nothing new to the set of names. The names of \<open>L\<close> come from a read, so they hold no
  separator; the new name may hold one.
\<close>

lemma reparse_set:
  assumes L: "\<forall>x\<in>set L. CHR '';'' \<notin> set x"
  shows "set (taken_names (Some (Some (join_with '';''
            (taken_names (Some (Some (join_with '';'' (L @ [nm])))) @ [nm])))))
         = set (taken_names (Some (Some (join_with '';'' (L @ [nm])))))"
proof (cases "join_with '';'' (L @ [nm]) = []")
  case True
  then have "L = [] \<and> nm = []" by (auto simp: join_with_Nil_iff Cons_eq_append_conv)
  then show ?thesis by (simp add: taken_names_def)
next
  case False
  have sL: "concat (map (split_on CHR '';'') L) = L"
    using L by (rule split_on_pieces)
  have L1: "taken_names (Some (Some (join_with '';'' (L @ [nm])))) = L @ split_on CHR '';'' nm"
    using False by (simp add: taken_names_def split_on_join sL)
  have ne: "join_with '';'' ((L @ split_on CHR '';'' nm) @ [nm]) \<noteq> []"
    using split_on_not_Nil [of "CHR '';''" nm]
    by (auto simp: join_with_Nil_iff Cons_eq_append_conv append_eq_Cons_conv)
  have s1: "concat (map (split_on CHR '';'') (split_on CHR '';'' nm)) = split_on CHR '';'' nm"
    by (rule split_on_pieces) (use split_on_no_sep in blast)
  have "taken_names (Some (Some (join_with '';'' ((L @ split_on CHR '';'' nm) @ [nm]))))
        = (L @ split_on CHR '';'' nm) @ split_on CHR '';'' nm"
    using ne by (simp add: taken_names_def split_on_join sL s1)
  then show ?thesis unfolding L1 by auto
qed

text \<open>
  C1. markMedicationTaken is idempotent: marking the same name for the same date twice
  leaves the same set of taken names for that date as marking it once, and marking a name
  that the day's list already holds leaves that list as it is, so the name is not
  duplicated.
\<close>

theorem markMedicationTaken_idempotent:
  "set (taken_list_on (markMedicationTaken (markMedicationTaken db d nm) d nm) d)
     = set (taken_list_on (markMedicationTaken db d nm) d) \<and>
   (nm \<in> set (taken_list_on db d) \<longrightarrow>
      taken_list_on (markMedicationTaken db d nm) d = taken_list_on db d)"
proof (cases "nm \<in> set (taken_list_on db d)")
  case True
  then show ?thesis by (simp add: mark_noop)
next
  case False
  let ?L = "taken_list_on db d"
  let ?L1 = "taken_names (Some (Some (join_with '';'' (?L @ [nm]))))"
  have r1: "taken_list_on (markMedicationTaken db d nm) d = ?L1"
    using False by (simp add: taken_list_on_mark)
  have "\<forall>x\<in>set ?L. CHR '';'' \<notin> set x"
    using taken_list_on_no_sep by blast
  then have "set (taken_names (Some (Some (join_with '';'' (?L1 @ [nm]))))) = set ?L1"
    by (rule reparse_set)
  then have "set (taken_list_on (markMedicationTaken (markMedicationTaken db d nm) d nm) d)
             = set ?L1"
    by (simp add: taken_list_on_mark [of "markMedicationTaken db d nm"] r1)
  with False r1 show ?thesis by simp
qed

theorem markMedicationTaken_idempotent_witness:
  "''Aspirin'' \<in> set (taken_list_on nine_store ''2024-01-05'') \<and>
   taken_list_on (markMedicationTaken nine_store ''2024-01-05'' ''Aspirin'') ''2024-01-05''
     = [''Aspirin''] \<and>
   set (taken_list_on (markMedicationTaken (markMedicationTaken aspirin_store
          ''2024-01-05'' ''Aspirin'') ''2024-01-05'' ''Aspirin'') ''2024-01-05'')
     = {''Aspirin''}"
proof -
  have p: "taken_list_on nine_store ''2024-01-05'' = [''Aspirin'']"
    by (simp add: nine_store_eq taken_list_on_def fetch_taken_def taken_names_def)
  have q: "taken_list_on (markMedicationTaken aspirin_store ''2024-01-05'' ''Aspirin'')
             ''2024-01-05'' = [''Aspirin'']"
    by (simp add: aspirin_store_eq taken_list_on_def fetch_taken_def taken_names_def
        markMedicationTaken_def mark_writes_def)
  show ?thesis
    using markMedicationTaken_idempotent [of nine_store "''2024-01-05''" "''Aspirin''"]
      markMedicationTaken_idempotent [of aspirin_store "''2024-01-05''" "''Aspirin''"] p q
    by simp
qed

text \<open>
  For a name without the separator the second call changes nothing in the whole store.
\<close>

lemma execute_update_twice:
  "execute (UPDATE_taken s d) (execute (UPDATE_taken s d) db) = execute (UPDATE_taken s d) db"
  by (simp add: comp_def)

lemma execute_update_after_insert:
  assumes "fetch_taken db d = None"
  shows "execute (UPDATE_taken s d) (execute (INSERT_taken d s) db) = execute (INSERT_taken d s) db"
proof -
  from assms have "\<forall>r\<in>set (health_log db). date r \<noteq> d"
    by (auto simp: fetch_taken_def find_None_iff)
  then have "map (\<lambda>r. if date r = d then r\<lparr>taken_medications := Some s\<rparr> else r) (health_log db)
             = health_log db"
    by (simp add: map_idI)
  then show ?thesis by simp
qed

lemma mark_twice_no_separator:
  assumes "CHR '';'' \<notin> set nm"
  shows "markMedicationTaken (markMedicationTaken db d nm) d nm = markMedicationTaken db d nm"
proof (cases "nm \<in> set (taken_list_on db d)")
  case True
  then show ?thesis by (simp add: mark_noop)
next
  case False
  let ?L = "taken_list_on db d"
  let ?db1 = "markMedicationTaken db d nm"
  have sL: "concat (map (split_on CHR '';'') ?L) = ?L"
    by (rule split_on_pieces) (use taken_list_on_no_sep in blast)
  have r1: "taken_list_on ?db1 d = taken_names (Some (Some (join_with '';'' (?L @ [nm]))))"
    using False by (simp add: taken_list_on_mark)
  show ?thesis
  proof (cases "join_with '';'' (?L @ [nm]) = []")
    case ne: False
    then have "taken_list_on ?db1 d = ?L @ [nm]"
      using assms by (simp add: r1 taken_names_def split_on_join sL split_on_id)
    then show ?thesis by (simp add: mark_noop)
  next
    case True
    then have e: "?L = []" "nm = []" by (auto simp: join_with_Nil_iff Cons_eq_append_conv)
    have l1: "taken_list_on ?db1 d = []" using True by (simp add: r1 taken_names_def)
    show ?thesis
    proof (cases "fetch_taken db d")
      case None
      then have m1: "?db1 = execute (INSERT_taken d nm) db" using False by (simp add: mark_insert)
      have f1: "fetch_taken ?db1 d \<noteq> None"
        by (simp add: m1 fetch_taken_insert None del: execute.simps)
      have "markMedicationTaken ?db1 d nm = execute (UPDATE_taken [] d) ?db1"
        using mark_update [of nm ?db1 d] f1 l1 e by simp
      then show ?thesis using e m1 execute_update_after_insert [OF None, of "[]"] by simp
    next
      case (Some a)
      then have m1: "?db1 = execute (UPDATE_taken [] d) db"
        using False e mark_update [of nm db d] by simp
      have f1: "fetch_taken ?db1 d \<noteq> None"
        by (simp add: m1 fetch_taken_update Some del: execute.simps)
      have "markMedicationTaken ?db1 d nm = execute (UPDATE_taken [] d) ?db1"
        using mark_update [of nm ?db1 d] f1 l1 e by simp
      then show ?thesis using m1 execute_update_twice [of "[]" d db] by simp
    qed
  qed
qed

text \<open>
  A name that holds the separator is read back as its pieces, so the handler does not
  find it and writes it again; the set of pieces read stays the same.
\<close>

lemma mark_twice_separator_name:
  "map taken_medications
     (health_log (markMedicationTaken empty_store ''2024-01-05'' ''a;b'')) = [Some ''a;b''] \<and>
   map taken_medications
     (health_log (markMedicationTaken (markMedicationTaken empty_store ''2024-01-05'' ''a;b'')
        ''2024-01-05'' ''a;b'')) = [Some ''a;b;a;b'']"
  by (simp add: empty_store_def markMedicationTaken_def mark_writes_def fetch_taken_def
      taken_names_def)

text \<open>
  C10. If the first health-log row found for the date already lists the name in its
  taken_medications, the handler issues no statement, neither UPDATE nor INSERT, and the
  whole store is unchanged.
\<close>

theorem markMedicationTaken_present_no_write:
  "nm \<in> set (taken_names (fetch_taken db d)) \<Longrightarrow>
     mark_writes db d nm = [] \<and> markMedicationTaken db d nm = db"
  by (simp add: markMedicationTaken_def mark_writes_def Let_def)

theorem markMedicationTaken_present_no_write_witness:
  "''Aspirin'' \<in> set (taken_names (fetch_taken nine_store ''2024-01-05'')) \<and>
   mark_writes nine_store ''2024-01-05'' ''Aspirin'' = [] \<and>
   markMedicationTaken nine_store ''2024-01-05'' ''Aspirin'' = nine_store"
proof -
  have h: "''Aspirin'' \<in> set (taken_names (fetch_taken nine_store ''2024-01-05''))"
    by (simp add: nine_store_eq fetch_taken_def taken_names_def)
  from h markMedicationTaken_present_no_write [OF h] show ?thesis by simp
qed

text \<open>
  C2, as stated, fails: the UPDATE of line 108 selects by date, so it writes every row of
  that date and not only the first match. After two symptom entries on 2024-01-05, marking
  Aspirin as taken changes the taken_medications of both rows.
\<close>

theorem markMedicationTaken_writes_every_row_of_date:
  "map date (health_log symptoms_store) = [''2024-01-05'', ''2024-01-05'', ''2024-01-06''] \<and>
   map taken_medications (health_log symptoms_store) = [None, None, None] \<and>
   map taken_medications
     (health_log (markMedicationTaken symptoms_store ''2024-01-05'' ''Aspirin''))
     = [Some ''Aspirin'', Some ''Aspirin'', None]"
  by (simp add: symptoms_store_eq markMedicationTaken_def mark_writes_def fetch_taken_def
      taken_names_def)

text \<open>
  C2, amended. When a health-log row for the date exists, markMedicationTaken changes
  nothing but the taken_medications field of the rows of that date, of all of them and not
  only of the first match: the medications are unchanged, no row is added or removed, every
  row keeps all its other fields, every row of another date is unchanged, and when the
  name is not yet in the day's list every row of the date receives the same new list.
\<close>

theorem markMedicationTaken_frame:
  assumes "fetch_taken db d \<noteq> None"
  shows "medications (markMedicationTaken db d nm) = medications db \<and>
     length (health_log (markMedicationTaken db d nm)) = length (health_log db) \<and>
     (\<forall>i<length (health_log db).
        (health_log (markMedicationTaken db d nm) ! i)\<lparr>taken_medications := None\<rparr>
          = (health_log db ! i)\<lparr>taken_medications := None\<rparr> \<and>
        (date (health_log db ! i) \<noteq> d \<longrightarrow>
           health_log (markMedicationTaken db d nm) ! i = health_log db ! i) \<and>
        (date (health_log db ! i) = d \<and> nm \<notin> set (taken_list_on db d) \<longrightarrow>
           taken_medications (health_log (markMedicationTaken db d nm) ! i)
             = Some (join_with '';'' (taken_list_on db d @ [nm]))))"
proof (cases "nm \<in> set (taken_list_on db d)")
  case True
  then show ?thesis by (simp add: mark_noop)
next
  case False
  then show ?thesis using assms by (simp add: mark_update)
qed

theorem markMedicationTaken_frame_witness:
  "fetch_taken symptoms_store ''2024-01-05'' \<noteq> None \<and>
   date (health_log symptoms_store ! 2) \<noteq> ''2024-01-05'' \<and>
   date (health_log symptoms_store ! 1) = ''2024-01-05'' \<and>
   ''Aspirin'' \<notin> set (taken_list_on symptoms_store ''2024-01-05'') \<and>
   medications (markMedicationTaken symptoms_store ''2024-01-05'' ''Aspirin'')
     = medications symptoms_store \<and>
   health_log (markMedicationTaken symptoms_store ''2024-01-05'' ''Aspirin'') ! 2
     = health_log symptoms_store ! 2 \<and>
   (health_log (markMedicationTaken symptoms_store ''2024-01-05'' ''Aspirin'') ! 1)
      \<lparr>taken_medications := None\<rparr> = health_log symptoms_store ! 1 \<and>
   taken_medications (health_log (markMedicationTaken symptoms_store ''2024-01-05'' ''Aspirin'') ! 1)
     = Some ''Aspirin''"
proof -
  have h: "fetch_taken symptoms_store ''2024-01-05'' \<noteq> None"
    by (simp add: symptoms_store_eq fetch_taken_def)
  have l: "taken_list_on symptoms_store ''2024-01-05'' = []"
    by (simp add: symptoms_store_eq taken_list_on_def fetch_taken_def taken_names_def)
  have n: "length (health_log symptoms_store) = 3"
    by (simp add: symptoms_store_eq)
  have r: "health_log symptoms_store ! 1 =
             \<lparr>log_id = 2, date = ''2024-01-05'', symptom = Some ''Fatigue'', severity = Some 3,
              log_notes = Some ''after lunch'', taken_medications = None\<rparr>"
          "date (health_log symptoms_store ! 2) = ''2024-01-06''"
    by (simp_all add: symptoms_store_eq)
  note f = markMedicationTaken_frame [OF h, of "''Aspirin''"]
  from f have m: "medications (markMedicationTaken symptoms_store ''2024-01-05'' ''Aspirin'')
                  = medications symptoms_store"
    by blast
  from f n have a1: "(health_log (markMedicationTaken symptoms_store ''2024-01-05'' ''Aspirin'') ! 1)
          \<lparr>taken_medications := None\<rparr> = (health_log symptoms_store ! 1)\<lparr>taken_medications := None\<rparr>"
    and a2: "date (health_log symptoms_store ! 1) = ''2024-01-05''
          \<and> ''Aspirin'' \<notin> set (taken_list_on symptoms_store ''2024-01-05'') \<longrightarrow>
        taken_medications (health_log (markMedicationTaken symptoms_store ''2024-01-05'' ''Aspirin'') ! 1)
          = Some (join_with '';'' (taken_list_on symptoms_store ''2024-01-05'' @ [''Aspirin'']))"
    and a3: "date (health_log symptoms_store ! 2) \<noteq> ''2024-01-05'' \<longrightarrow>
        health_log (markMedicationTaken symptoms_store ''2024-01-05'' ''Aspirin'') ! 2
          = health_log symptoms_store ! 2"
    by simp_all
  from a1 r(1) have b1: "(health_log (markMedicationTaken symptoms_store ''2024-01-05'' ''Aspirin'') ! 1)
          \<lparr>taken_medications := None\<rparr> = health_log symptoms_store ! 1"
    by simp
  from a2 r(1) l have b2:
    "taken_medications (health_log (markMedicationTaken symptoms_store ''2024-01-05'' ''Aspirin'') ! 1)
       = Some ''Aspirin''"
    by simp
  from a3 r(2) have b3: "health_log (markMedicationTaken symptoms_store ''2024-01-05'' ''Aspirin'') ! 2
          = health_log symptoms_store ! 2"
    by simp
  from h l r m b1 b2 b3 show ?thesis by simp
qed

section \<open>Persistence Store: queries\<close>

text \<open>
  C3. listMedicationsActiveOn(d) holds a medication exactly when it is in the store, its
  start_date is at most d, and its end_date is absent or at least d; the query keeps the
  rows in store order.
\<close>

theorem listMedicationsActiveOn_iff:
  "listMedicationsActiveOn db d
     = filter (\<lambda>m. start_date m \<le> d \<and> (case end_date m of None \<Rightarrow> True | Some e \<Rightarrow> d \<le> e))
         (medications db) \<and>
   (m \<in> set (listMedicationsActiveOn db d) \<longleftrightarrow>
      m \<in> set (medications db) \<and> start_date m \<le> d \<and>
      (case end_date m of None \<Rightarrow> True | Some e \<Rightarrow> d \<le> e))"
proof -
  have eq: "\<And>m. between d (start_date m) (coalesce (end_date m) d)
        = (start_date m \<le> d \<and> (case end_date m of None \<Rightarrow> True | Some e \<Rightarrow> d \<le> e))"
    by (simp add: between_def coalesce_def split: option.splits)
  show ?thesis by (simp add: listMedicationsActiveOn_def eq)
qed

text \<open>The query on the example store, before, inside and after the range.\<close>

lemma listMedicationsActiveOn_examples:
  "listMedicationsActiveOn aspirin_store ''2023-12-31'' = [] \<and>
   listMedicationsActiveOn aspirin_store ''2024-01-01'' = medications aspirin_store \<and>
   listMedicationsActiveOn
     (aspirin_store\<lparr>medications :=
        map (\<lambda>m. m\<lparr>end_date := Some ''2024-01-31''\<rparr>) (medications aspirin_store)\<rparr>)
     ''2024-02-01'' = []"
  by (simp add: aspirin_store_eq listMedicationsActiveOn_def between_def coalesce_def)

text \<open>The ordering of line 168 sorts by date, descending.\<close>

lemma set_insort_desc: "set (insort_desc r xs) = insert r (set xs)"
  by (induction xs) auto

lemma sorted_insort_desc:
  "sorted_wrt (\<lambda>a b. date b \<le> date a) xs \<Longrightarrow>
   sorted_wrt (\<lambda>a b. date b \<le> date a) (insort_desc r xs)"
  by (induction xs) (auto simp: set_insort_desc)

lemma sorted_order_by_date_desc:
  "sorted_wrt (\<lambda>a b. date b \<le> date a) (order_by_date_desc rows)"
  unfolding order_by_date_desc_def by (induction rows) (simp_all add: sorted_insort_desc)

lemma mset_insort_desc: "mset (insort_desc r xs) = add_mset r (mset xs)"
  by (induction xs) auto

text \<open>The ordering keeps every row of the table, once each.\<close>

lemma mset_order_by_date_desc: "mset (order_by_date_desc rows) = mset rows"
  unfolding order_by_date_desc_def by (induction rows) (simp_all add: mset_insort_desc)

lemma length_listRecentHealthLogEntries:
  "length (listRecentHealthLogEntries db limit) = min limit (length (health_log db))"
proof -
  have "length (order_by_date_desc (health_log db)) = length (health_log db)"
    using mset_order_by_date_desc [of "health_log db"] by (metis size_mset)
  then show ?thesis by (simp add: listRecentHealthLogEntries_def min.commute)
qed

text \<open>
  C7. For every store, listRecentHealthLogEntries(10) returns at most 10 rows, and the
  rows returned are ordered by date descending.
\<close>

theorem listRecentHealthLogEntries_limit_order:
  "length (listRecentHealthLogEntries db 10) \<le> 10 \<and>
   sorted_wrt (\<lambda>a b. fst b \<le> fst a) (listRecentHealthLogEntries db 10)"
proof -
  have "sorted_wrt (\<lambda>a b. date b \<le> date a) (take 10 (order_by_date_desc (health_log db)))"
    by (rule sorted_wrt_take) (rule sorted_order_by_date_desc)
  then show ?thesis by (simp add: listRecentHealthLogEntries_def sorted_wrt_map)
qed

lemma listRecentHealthLogEntries_example:
  "listRecentHealthLogEntries symptoms_store 10 =
     [(''2024-01-06'', Some ''Cough'', Some 2, Some []),
      (''2024-01-05'', Some ''Headache'', Some 6, Some []),
      (''2024-01-05'', Some ''Fatigue'', Some 3, Some ''after lunch'')]"
  by (simp add: symptoms_store_eq listRecentHealthLogEntries_def order_by_date_desc_def)

section \<open>Add Medication\<close>

text \<open>
  C6. Submitting the Add-Medication form with an empty name shows the error message and
  writes nothing: the store, and so its medications, is as before.
\<close>

theorem addMedication_empty_name:
  "f_name f = [] \<Longrightarrow>
     fst (addMedication f db) = St_error ''Please fill all required fields.'' \<and>
     snd (addMedication f db) = db \<and>
     medications (snd (addMedication f db)) = medications db"
  by (simp add: addMedication_def)

theorem addMedication_empty_name_witness:
  "f_name nameless_form = [] \<and>
   fst (addMedication nameless_form aspirin_store) = St_error ''Please fill all required fields.'' \<and>
   snd (addMedication nameless_form aspirin_store) = aspirin_store \<and>
   medications (snd (addMedication nameless_form aspirin_store)) = medications aspirin_store"
proof -
  have h: "f_name nameless_form = []" by (simp add: nameless_form_def)
  from h addMedication_empty_name [OF h, of aspirin_store] show ?thesis by simp
qed

text \<open>
  C5. The input "08:00, 20:00" is stored as it is, parses on read to the list of "08:00"
  and "20:00", and writing that list the way the script writes a list of times gives the
  stored string again.
\<close>

theorem reminder_times_round_trip:
  assumes "f_name f \<noteq> []" "f_dosage f \<noteq> []" "f_reminder_input f = ''08:00, 20:00''"
  shows "reminder_times (last (medications (snd (addMedication f db)))) = ''08:00, 20:00'' \<and>
     parse_times (reminder_times (last (medications (snd (addMedication f db)))))
       = [''08:00'', ''20:00''] \<and>
     join_times (parse_times (reminder_times (last (medications (snd (addMedication f db))))))
       = reminder_times (last (medications (snd (addMedication f db))))"
  using assms by (simp add: addMedication_def parse_times_example join_times_def)

theorem reminder_times_round_trip_witness:
  "f_name aspirin_form \<noteq> [] \<and> f_dosage aspirin_form \<noteq> [] \<and>
   f_reminder_input aspirin_form = ''08:00, 20:00'' \<and>
   reminder_times (last (medications aspirin_store)) = ''08:00, 20:00'' \<and>
   parse_times (reminder_times (last (medications aspirin_store))) = [''08:00'', ''20:00''] \<and>
   join_times (parse_times (reminder_times (last (medications aspirin_store))))
     = reminder_times (last (medications aspirin_store))"
proof -
  have h: "f_name aspirin_form \<noteq> []" "f_dosage aspirin_form \<noteq> []"
    "f_reminder_input aspirin_form = ''08:00, 20:00''"
    by (simp_all add: aspirin_form_def)
  from h reminder_times_round_trip [OF h, of empty_store] show ?thesis
    unfolding aspirin_store_def by blast
qed

text \<open>
  The round trip is a fact about this input. An input without the blank parses to the
  same list and is written back with the blank.
\<close>

lemma reminder_times_no_blank:
  "parse_times ''08:00,20:00'' = [''08:00'', ''20:00''] \<and>
   join_times (parse_times ''08:00,20:00'') = ''08:00, 20:00''"
  by (simp add: parse_times_def strip_def is_space_def join_times_def)

section \<open>Schedule Evaluator\<close>

lemma classify_filter:
  "classify db today now nm ts (p, k) =
     (p @ filter (\<lambda>t. \<not> (t < now \<and> nm \<in> set (taken_list_on db today))) ts,
      k @ filter (\<lambda>t. t < now \<and> nm \<in> set (taken_list_on db today)) ts)"
  by (induction ts arbitrary: p k) (simp_all add: Let_def taken_list_on_def)

text \<open>
  C4. For a medication, a current time and the day's taken list, a reminder time is
  listed as taken exactly when it is strictly below the current time, as strings, and the
  medication's name is in the day's list; every other time, so every time at or after the
  current time, is listed as pending; both lists keep the order of the reminder times.
  With the current time 12:00, the reminder times 08:00 and 20:00 and no taken record,
  both times are pending and none is taken; after the medication is marked as taken, 08:00
  is taken and 20:00 is pending.
\<close>

theorem scheduleEvaluator_classification:
  "fst (scheduleEvaluator db today now med)
     = filter (\<lambda>t. \<not> (t < now \<and> name med \<in> set (taken_list_on db today)))
         (parse_times (reminder_times med)) \<and>
   snd (scheduleEvaluator db today now med)
     = filter (\<lambda>t. t < now \<and> name med \<in> set (taken_list_on db today))
         (parse_times (reminder_times med)) \<and>
   parse_times (reminder_times (hd (medications aspirin_store))) = [''08:00'', ''20:00''] \<and>
   scheduleEvaluator aspirin_store ''2024-01-05'' ''12:00'' (hd (medications aspirin_store))
     = ([''08:00'', ''20:00''], []) \<and>
   scheduleEvaluator (markMedicationTaken aspirin_store ''2024-01-05'' ''Aspirin'')
       ''2024-01-05'' ''12:00'' (hd (medications aspirin_store))
     = ([''20:00''], [''08:00''])"
proof -
  have g: "scheduleEvaluator db today now med
      = (filter (\<lambda>t. \<not> (t < now \<and> name med \<in> set (taken_list_on db today)))
           (parse_times (reminder_times med)),
         filter (\<lambda>t. t < now \<and> name med \<in> set (taken_list_on db today))
           (parse_times (reminder_times med)))"
    by (simp add: scheduleEvaluator_def classify_filter)
  have p: "parse_times (reminder_times (hd (medications aspirin_store))) = [''08:00'', ''20:00'']"
    by (simp add: aspirin_store_eq parse_times_example)
  have a: "scheduleEvaluator aspirin_store ''2024-01-05'' ''12:00'' (hd (medications aspirin_store))
             = ([''08:00'', ''20:00''], [])"
    by (simp add: aspirin_store_eq scheduleEvaluator_def parse_times_example fetch_taken_def
        taken_names_def)
  have b: "scheduleEvaluator (markMedicationTaken aspirin_store ''2024-01-05'' ''Aspirin'')
             ''2024-01-05'' ''12:00'' (hd (medications aspirin_store))
           = ([''20:00''], [''08:00''])"
    by (simp add: aspirin_store_eq scheduleEvaluator_def parse_times_example fetch_taken_def
        taken_names_def markMedicationTaken_def mark_writes_def next_id_def)
  from g p a b show ?thesis by simp
qed

text \<open>
  C9, as stated, fails: nothing checks or pads a reminder time. The form accepts the input
  9:00, the store holds it as entered, and the evaluator compares it as it is. At 10:00,
  with the medication marked as taken, 9:00 is not below 10:00 as a string and is listed
  as pending.
\<close>

theorem scheduleEvaluator_unpadded_time:
  "reminder_times (hd (medications nine_store)) = ''9:00'' \<and>
   taken_list_on nine_store ''2024-01-05'' = [''Aspirin''] \<and>
   \<not> ''9:00'' < ''10:00'' \<and>
   scheduleEvaluator nine_store ''2024-01-05'' ''10:00'' (hd (medications nine_store))
     = ([''9:00''], [])"
  by (simp add: nine_store_eq scheduleEvaluator_def parse_times_def strip_def is_space_def
      taken_list_on_def fetch_taken_def taken_names_def)

text \<open>The order of strings against the order of minutes, for zero-padded times.\<close>

lemma lex10:
  fixes h x h' x' :: nat
  assumes "x < 10" "x' < 10"
  shows "(h < h' \<or> h = h' \<and> x < x') \<longleftrightarrow> 10 * h + x < 10 * h' + x'"
  using assms by arith

lemma lex60:
  fixes h x h' x' :: nat
  assumes "x < 60" "x' < 60"
  shows "(h < h' \<or> h = h' \<and> x < x') \<longleftrightarrow> h * 60 + x < h' * 60 + x'"
  using assms by arith

lemma eq10:
  fixes h x h' x' :: nat
  assumes "x < 10" "x' < 10"
  shows "(h = h' \<and> x = x') \<longleftrightarrow> 10 * h + x = 10 * h' + x'"
  using assms by arith

lemma lex4:
  fixes a b d e a' b' d' e' :: nat
  assumes "b < 10" "b' < 10" "10 * d + e < 60" "10 * d' + e' < 60" "e < 10" "e' < 10"
  shows "(a < a' \<or> a = a' \<and> (b < b' \<or> b = b' \<and> (d < d' \<or> d = d' \<and> e < e')))
     \<longleftrightarrow> (10 * a + b) * 60 + (10 * d + e) < (10 * a' + b') * 60 + (10 * d' + e')"
proof -
  have "(a < a' \<or> a = a' \<and> (b < b' \<or> b = b' \<and> (d < d' \<or> d = d' \<and> e < e')))
     \<longleftrightarrow> ((a < a' \<or> a = a' \<and> b < b') \<or> (a = a' \<and> b = b') \<and> (d < d' \<or> d = d' \<and> e < e'))"
    by blast
  also have "\<dots> \<longleftrightarrow> (10 * a + b < 10 * a' + b' \<or>
        10 * a + b = 10 * a' + b' \<and> 10 * d + e < 10 * d' + e')"
    unfolding lex10 [OF assms(1,2)] eq10 [OF assms(1,2)] lex10 [OF assms(5,6)] ..
  also have "\<dots> \<longleftrightarrow> (10 * a + b) * 60 + (10 * d + e) < (10 * a' + b') * 60 + (10 * d' + e')"
    by (rule lex60 [OF assms(3,4)])
  finally show ?thesis .
qed

lemma char_less_nat: "(c < c') = ((of_char c :: nat) < of_char c')"
  by (simp add: less_char_def)

lemma char_eq_nat: "(c = c') = ((of_char c :: nat) = of_char c')"
  by simp

lemma digit_order:
  "is_digit x \<Longrightarrow> is_digit y \<Longrightarrow>
     (x < y \<longleftrightarrow> digit_value x < digit_value y) \<and> (x = y \<longleftrightarrow> digit_value x = digit_value y)
     \<and> digit_value x < 10 \<and> digit_value y < 10"
  unfolding is_digit_def digit_value_def char_less_nat
  by (subst char_eq_nat) arith

lemma zero_padded_order:
  assumes "zero_padded_hhmm t" "zero_padded_hhmm now"
  shows "t < now \<longleftrightarrow> minute_of_day t < minute_of_day now"
proof -
  from assms(1) obtain a b d e where t: "t = [a, b, CHR '':'', d, e]"
    and ta: "is_digit a" "is_digit b" "is_digit d" "is_digit e"
        "10 * digit_value d + digit_value e < 60"
    by (auto elim!: zero_padded_hhmm.elims)
  from assms(2) obtain a' b' d' e' where n: "now = [a', b', CHR '':'', d', e']"
    and na: "is_digit a'" "is_digit b'" "is_digit d'" "is_digit e'"
        "10 * digit_value d' + digit_value e' < 60"
    by (auto elim!: zero_padded_hhmm.elims)
  note da = digit_order [OF ta(1) na(1)] and db = digit_order [OF ta(2) na(2)]
    and dd = digit_order [OF ta(3) na(3)] and de = digit_order [OF ta(4) na(4)]
  have "t < now \<longleftrightarrow>
     (digit_value a < digit_value a' \<or> digit_value a = digit_value a' \<and>
       (digit_value b < digit_value b' \<or> digit_value b = digit_value b' \<and>
         (digit_value d < digit_value d' \<or> digit_value d = digit_value d' \<and>
            digit_value e < digit_value e')))"
    unfolding t n using da db dd de by simp
  also have "\<dots> \<longleftrightarrow> minute_of_day t < minute_of_day now"
    unfolding t n minute_of_day.simps
    by (rule lex4) (use db de ta(5) na(5) in simp_all)
  finally show ?thesis .
qed

text \<open>A string without a comma and without whitespace is read as the one time it is.\<close>

lemma strip_no_space: "list_all (\<lambda>c. \<not> is_space c) s \<Longrightarrow> strip s = s"
proof -
  assume a: "list_all (\<lambda>c. \<not> is_space c) s"
  then have "dropWhile is_space s = s"
    by (cases s) simp_all
  moreover from a have "dropWhile is_space (rev s) = rev s"
    by (cases "rev s") (auto simp: list_all_iff dest: arg_cong [where f = set])
  ultimately show ?thesis by (simp add: strip_def)
qed

lemma parse_times_single:
  "s \<noteq> [] \<Longrightarrow> CHR '','' \<notin> set s \<Longrightarrow> list_all (\<lambda>c. \<not> is_space c) s \<Longrightarrow>
   parse_times s = [s]"
  by (simp add: parse_times_def split_on_id strip_no_space)

text \<open>
  C9, amended. The Schedule Evaluator does not enforce zero-padding: it rejects and
  rewrites nothing. The times it classifies are the pieces of the stored string between
  the commas, with the whitespace around them removed and nothing else changed, so a time
  entered without commas and whitespace is kept as entered. Each of them is compared as
  it is, as a string, with the current time: it is listed as taken exactly when it is
  below the current time and the medication's name is in the day's list, and as pending
  otherwise, so every one of them is listed once. That comparison of strings agrees with
  the order of the times of day whenever both strings are zero-padded 24-hour times.
\<close>

theorem scheduleEvaluator_compares_as_stored:
  "fst (scheduleEvaluator db today now med)
     = filter (\<lambda>t. \<not> (t < now \<and> name med \<in> set (taken_list_on db today)))
         (parse_times (reminder_times med)) \<and>
   snd (scheduleEvaluator db today now med)
     = filter (\<lambda>t. t < now \<and> name med \<in> set (taken_list_on db today))
         (parse_times (reminder_times med)) \<and>
   parse_times (reminder_times med)
     = (if reminder_times med = [] then []
        else map strip (split_on CHR '','' (reminder_times med))) \<and>
   (s \<noteq> [] \<and> CHR '','' \<notin> set s \<and> list_all (\<lambda>c. \<not> is_space c) s \<longrightarrow>
      parse_times s = [s]) \<and>
   mset (fst (scheduleEvaluator db today now med)) + mset (snd (scheduleEvaluator db today now med))
     = mset (parse_times (reminder_times med)) \<and>
   (zero_padded_hhmm t \<and> zero_padded_hhmm now \<longrightarrow>
      (t < now \<longleftrightarrow> minute_of_day t < minute_of_day now))"
proof -
  have g: "scheduleEvaluator db today now med
      = (filter (\<lambda>t. \<not> (t < now \<and> name med \<in> set (taken_list_on db today)))
           (parse_times (reminder_times med)),
         filter (\<lambda>t. t < now \<and> name med \<in> set (taken_list_on db today))
           (parse_times (reminder_times med)))"
    by (simp add: scheduleEvaluator_def classify_filter)
  have d: "parse_times (reminder_times med)
     = (if reminder_times med = [] then []
        else map strip (split_on CHR '','' (reminder_times med)))"
    by (simp add: parse_times_def)
  have u: "s \<noteq> [] \<and> CHR '','' \<notin> set s \<and> list_all (\<lambda>c. \<not> is_space c) s \<longrightarrow>
      parse_times s = [s]"
    using parse_times_single [of s] by blast
  have m: "mset (filter (\<lambda>t. \<not> (t < now \<and> name med \<in> set (taken_list_on db today)))
                (parse_times (reminder_times med)))
        + mset (filter (\<lambda>t. t < now \<and> name med \<in> set (taken_list_on db today))
                (parse_times (reminder_times med)))
        = mset (parse_times (reminder_times med))"
    by (induction "parse_times (reminder_times med)") simp_all
  have z: "zero_padded_hhmm t \<and> zero_padded_hhmm now \<longrightarrow>
      (t < now \<longleftrightarrow> minute_of_day t < minute_of_day now)"
    using zero_padded_order [of t now] by blast
  have f: "fst (scheduleEvaluator db today now med)
     = filter (\<lambda>t. \<not> (t < now \<and> name med \<in> set (taken_list_on db today)))
         (parse_times (reminder_times med))"
    and k: "snd (scheduleEvaluator db today now med)
     = filter (\<lambda>t. t < now \<and> name med \<in> set (taken_list_on db today))
         (parse_times (reminder_times med))"
    by (simp_all add: g)
  from m have m': "mset (fst (scheduleEvaluator db today now med))
        + mset (snd (scheduleEvaluator db today now med))
        = mset (parse_times (reminder_times med))"
    unfolding f k .
  from f k d u m' z show ?thesis by blast
qed

theorem scheduleEvaluator_compares_as_stored_witness:
  "zero_padded_hhmm ''08:00'' \<and> zero_padded_hhmm ''10:00'' \<and> ''08:00'' < ''10:00'' \<and>
   minute_of_day ''08:00'' < minute_of_day ''10:00'' \<and>
   ''9:00'' \<noteq> [] \<and> CHR '','' \<notin> set ''9:00'' \<and> list_all (\<lambda>c. \<not> is_space c) ''9:00'' \<and>
   parse_times ''9:00'' = [''9:00''] \<and>
   fst (scheduleEvaluator nine_store ''2024-01-05'' ''10:00'' (hd (medications nine_store)))
     = [''9:00''] \<and>
   snd (scheduleEvaluator nine_store ''2024-01-05'' ''10:00'' (hd (medications nine_store)))
     = [] \<and>
   mset (fst (scheduleEvaluator nine_store ''2024-01-05'' ''10:00''
                (hd (medications nine_store))))
   + mset (snd (scheduleEvaluator nine_store ''2024-01-05'' ''10:00''
                (hd (medications nine_store))))
     = mset [''9:00'']"
proof -
  let ?med = "hd (medications nine_store)"
  have h: "zero_padded_hhmm ''08:00''" "zero_padded_hhmm ''10:00''"
    by (simp_all add: is_digit_def digit_value_def)
  have v: "''9:00'' \<noteq> []" "CHR '','' \<notin> set ''9:00''"
    "list_all (\<lambda>c. \<not> is_space c) ''9:00''"
    by (simp_all add: is_space_def)
  have l: "''08:00'' < ''10:00''" "\<not> ''9:00'' < ''10:00''" by simp_all
  have r: "reminder_times ?med = ''9:00''" "name ?med = ''Aspirin''"
    by (simp_all add: nine_store_eq)
  note th = scheduleEvaluator_compares_as_stored
         [of nine_store "''2024-01-05''" "''10:00''" ?med "''9:00''" "''08:00''"]
  from th v have p: "parse_times ''9:00'' = [''9:00'']" by blast
  from th h have o: "''08:00'' < ''10:00'' \<longleftrightarrow> minute_of_day ''08:00'' < minute_of_day ''10:00''"
    by blast
  from th have f: "fst (scheduleEvaluator nine_store ''2024-01-05'' ''10:00'' ?med)
     = filter (\<lambda>t. \<not> (t < ''10:00'' \<and> name ?med \<in> set (taken_list_on nine_store ''2024-01-05'')))
         (parse_times (reminder_times ?med))"
    by blast
  from th have k: "snd (scheduleEvaluator nine_store ''2024-01-05'' ''10:00'' ?med)
     = filter (\<lambda>t. t < ''10:00'' \<and> name ?med \<in> set (taken_list_on nine_store ''2024-01-05''))
         (parse_times (reminder_times ?med))"
    by blast
  from f have f': "fst (scheduleEvaluator nine_store ''2024-01-05'' ''10:00'' ?med) = [''9:00'']"
    unfolding r p using l(2) by simp
  from k have k': "snd (scheduleEvaluator nine_store ''2024-01-05'' ''10:00'' ?med) = []"
    unfolding r p using l(2) by simp
  from h v l(1) o p f' k' show ?thesis by simp
qed

section \<open>Document Exporter\<close>




text \<open>
  The dash also stands for notes that are the empty string, which is what the health-log
  form stores when the notes are left empty.
\<close>

lemma log_row_empty_notes:
  "log_row \<lparr>log_id = 1, date = ''2024-01-05'', symptom = Some ''Headache'', severity = Some 6,
            log_notes = Some [], taken_medications = None\<rparr>
     = [Str ''2024-01-05'', Str ''Headache'', Num 6, Str ''-'']"
  by (simp add: log_row_def notes_or_dash_def text_cell_def int_cell_def)

end
